theory Spec2Isabelle
  imports Main "HOL-Library.Word" "HOL-Library.Signed_Division" "HOL-Library.Monad_Syntax"
begin

unbundle bit_operations_syntax

section \<open>The LSM9DS1 driver (final revision) as state-passing functions\<close>

text \<open>
  The model follows the third, final revision of the driver in \<^verbatim>\<open>src/unnamed/part_000\<close>
  (lines 478--761) and its header (lines 763--787). The target is an MSP432 (the code uses
  the \<^verbatim>\<open>EUSCI_B1->\<close> register structs of \<^verbatim>\<open>msp.h\<close>): \<^verbatim>\<open>int\<close> has 32 bits, the port
  registers have 8 bits, the eUSCI registers 16 bits.
\<close>

subsection \<open>Data\<close>

text \<open>\<^verbatim>\<open>enum ss_t {AG, M, A, G};\<close>\<close>

datatype ss_t = AG | M | A | G

text \<open>
  What the driver does to the outside world, in program order: a store to \<^verbatim>\<open>P6OUT\<close>
  (the new value of the port), or one byte exchanged on the bus (the byte written to
  \<^verbatim>\<open>TXBUF\<close>, the byte then read from \<^verbatim>\<open>RXBUF\<close>).
\<close>

datatype event = Port "8 word" | Xfer "8 word" "8 word"

text \<open>
  The registers the driver touches, its global \<^verbatim>\<open>RDxBuffer\<close>, and the hardware it talks
  to. The two volatile registers the driver only reads are streams: \<open>STATW s k\<close> is what
  the \<open>k\<close>-th read of \<^verbatim>\<open>EUSCI_B1->STATW\<close> returns, \<open>RXBUF s n\<close> is what
  \<^verbatim>\<open>EUSCI_B1->RXBUF\<close> holds when the \<open>n\<close>-th transfer is read back. \<open>polls\<close> and
  \<open>xfers\<close> count the reads made so far, \<open>trace\<close> lists the events so far.
\<close>

record mcu =
  P6SEL0 :: "8 word"
  P6DIR :: "8 word"
  P6OUT :: "8 word"
  CTLW0 :: "16 word"
  BRW :: "16 word"
  RDxBuffer :: "16 word"
  STATW :: "nat \<Rightarrow> 16 word"
  RXBUF :: "nat \<Rightarrow> 16 word"
  polls :: nat
  xfers :: nat
  trace :: "event list"

subsection \<open>Constants of the vendor header\<close>

text \<open>
  Modelled from the spec: the bit masks \<^verbatim>\<open>BIT0\<close> .. \<^verbatim>\<open>BIT5\<close> of \<^verbatim>\<open>msp.h\<close>, which is not
  part of the sources. The spec and the driver's comments put CSAG on P6.0 and CSM on
  P6.1, so \<^verbatim>\<open>BITn\<close> is the mask of bit \<open>n\<close>, here at the width of the 8-bit port registers.
\<close>

definition BIT0 :: "8 word" where "BIT0 = 0x01"
definition BIT1 :: "8 word" where "BIT1 = 0x02"
definition BIT2 :: "8 word" where "BIT2 = 0x04"
definition BIT3 :: "8 word" where "BIT3 = 0x08"
definition BIT4 :: "8 word" where "BIT4 = 0x10"
definition BIT5 :: "8 word" where "BIT5 = 0x20"

text \<open>
  Modelled from the spec: the eUSCI\_B control and status masks of \<^verbatim>\<open>msp.h\<close>, which is
  not part of the sources. The bit positions are those the first revision of the driver
  documents for \<^verbatim>\<open>UCB1CTLW0\<close> (bit 15 UCCKPH, bit 13 UCMSB, bit 11 UCMST, bits 10-9
  UCMODEx, bit 8 UCSYNC, bits 7-6 UCSSELx, bit 1 UCSTEM, bit 0 software reset) and for the
  busy flag it polls (\<^verbatim>\<open>UCB1STATW & 0x01\<close>).
\<close>

definition EUSCI_B_CTLW0_SWRST :: "16 word" where "EUSCI_B_CTLW0_SWRST = 0x0001"
definition EUSCI_B_CTLW0_STEM :: "16 word" where "EUSCI_B_CTLW0_STEM = 0x0002"
definition EUSCI_B_CTLW0_SSEL__ACLK :: "16 word" where "EUSCI_B_CTLW0_SSEL__ACLK = 0x0040"
definition EUSCI_B_CTLW0_SYNC :: "16 word" where "EUSCI_B_CTLW0_SYNC = 0x0100"
definition EUSCI_B_CTLW0_MODE_1 :: "16 word" where "EUSCI_B_CTLW0_MODE_1 = 0x0200"
definition EUSCI_B_CTLW0_MST :: "16 word" where "EUSCI_B_CTLW0_MST = 0x0800"
definition EUSCI_B_CTLW0_MSB :: "16 word" where "EUSCI_B_CTLW0_MSB = 0x2000"
definition EUSCI_B_CTLW0_CKPH :: "16 word" where "EUSCI_B_CTLW0_CKPH = 0x8000"
definition EUSCI_B_STATW_SPI_BUSY :: "16 word" where "EUSCI_B_STATW_SPI_BUSY = 0x0001"

subsection \<open>Register addresses used by the driver\<close>

definition WHO_AM_I :: "8 word" where "WHO_AM_I = 0x0F"
definition CTRL_REG1_G :: "8 word" where "CTRL_REG1_G = 0x10"
definition OUT_TEMP_L :: "8 word" where "OUT_TEMP_L = 0x15"
definition OUT_X_L_G :: "8 word" where "OUT_X_L_G = 0x18"
definition OUT_Y_L_G :: "8 word" where "OUT_Y_L_G = 0x1A"
definition OUT_Z_L_G :: "8 word" where "OUT_Z_L_G = 0x1C"
definition CTRL_REG5_XL :: "8 word" where "CTRL_REG5_XL = 0x1F"
definition CTRL_REG6_XL :: "8 word" where "CTRL_REG6_XL = 0x20"
definition CTRL_REG8 :: "8 word" where "CTRL_REG8 = 0x22"
definition OUT_X_L_XL :: "8 word" where "OUT_X_L_XL = 0x28"
definition OUT_Y_L_XL :: "8 word" where "OUT_Y_L_XL = 0x2A"
definition OUT_Z_L_XL :: "8 word" where "OUT_Z_L_XL = 0x2C"
definition CTRL_REG1_M :: "8 word" where "CTRL_REG1_M = 0x20"
definition CTRL_REG3_M :: "8 word" where "CTRL_REG3_M = 0x22"
definition CTRL_REG4_M :: "8 word" where "CTRL_REG4_M = 0x23"
definition OUT_X_L_M :: "8 word" where "OUT_X_L_M = 0x28"
definition OUT_Y_L_M :: "8 word" where "OUT_Y_L_M = 0x2A"
definition OUT_Z_L_M :: "8 word" where "OUT_Z_L_M = 0x2C"

subsection \<open>The transport\<close>

text \<open>A store to \<^verbatim>\<open>P6OUT\<close>.\<close>

definition set_P6OUT :: "8 word \<Rightarrow> mcu \<Rightarrow> mcu" where
  "set_P6OUT v s = s\<lparr>P6OUT := v, trace := trace s @ [Port v]\<rparr>"

text \<open>
  \<^verbatim>\<open>while(EUSCI_B1->STATW & EUSCI_B_STATW_SPI_BUSY){}\<close>: the loop reads the status
  register until the busy flag is clear, and never returns when that never happens.
  The argument is the index of the next read, the result the index after the last one.
\<close>

partial_function (option) wait_while_busy :: "(nat \<Rightarrow> 16 word) \<Rightarrow> nat \<Rightarrow> nat option" where
  "wait_while_busy statw k =
     (if statw k AND EUSCI_B_STATW_SPI_BUSY \<noteq> 0 then wait_while_busy statw (Suc k)
      else Some (Suc k))"

text \<open>
  \<^verbatim>\<open>uint8_t SPI_transfer(uint8_t data)\<close>: store \<open>data\<close> to \<^verbatim>\<open>TXBUF\<close>, wait, return
  \<^verbatim>\<open>RXBUF\<close> converted to \<^verbatim>\<open>uint8_t\<close>.
\<close>

definition SPI_transfer :: "8 word \<Rightarrow> mcu \<Rightarrow> (8 word \<times> mcu) option" where
  "SPI_transfer data s = do {
     k \<leftarrow> wait_while_busy (STATW s) (polls s);
     let r = (ucast (RXBUF s (xfers s)) :: 8 word);
     Some (r, s\<lparr>polls := k, xfers := Suc (xfers s), trace := trace s @ [Xfer data r]\<rparr>)
   }"

subsection \<open>Register reads and writes\<close>

text \<open>
  \<^verbatim>\<open>void read_SPI(enum ss_t device, uint8_t address, uint8_t bytesToRead)\<close>. The
  operands of \<^verbatim>\<open>|\<close> and \<^verbatim>\<open><<\<close> are promoted to \<^verbatim>\<open>int\<close> and the result is converted back
  to the width of the destination; on these operands that is the bitwise operation at
  the destination's width.
\<close>

definition read_SPI :: "ss_t \<Rightarrow> 8 word \<Rightarrow> 8 word \<Rightarrow> mcu \<Rightarrow> mcu option" where
  "read_SPI device address bytesToRead s = do {
     s1 \<leftarrow> (if device = AG then
              map_option snd (SPI_transfer (address OR 0x80)
                (set_P6OUT (P6OUT s AND (NOT BIT0 AND NOT BIT2)) s))
            else if device = M then
              map_option snd (SPI_transfer (address OR 0xC0)
                (set_P6OUT (P6OUT s AND (NOT BIT1 AND NOT BIT2)) s))
            else Some s);
     (b0, s2) \<leftarrow> SPI_transfer 0 s1;
     let s3 = s2\<lparr>RDxBuffer := 0x0000 OR ucast b0\<rparr>;
     s4 \<leftarrow> (if bytesToRead = 2 then do {
              (b1, t) \<leftarrow> SPI_transfer 0 s3;
              Some (t\<lparr>RDxBuffer := push_bit 8 (ucast b1) OR RDxBuffer t\<rparr>)
            } else Some s3);
     Some (if device = AG then set_P6OUT (P6OUT s4 OR (BIT0 OR BIT2)) s4
           else if device = M then set_P6OUT (P6OUT s4 OR (BIT1 OR BIT2)) s4
           else s4)
   }"

text \<open>\<^verbatim>\<open>void write_SPI(enum ss_t device, uint8_t address, uint8_t data)\<close>.\<close>

definition write_SPI :: "ss_t \<Rightarrow> 8 word \<Rightarrow> 8 word \<Rightarrow> mcu \<Rightarrow> mcu option" where
  "write_SPI device address data s = do {
     s1 \<leftarrow> (if device = AG then
              map_option snd (SPI_transfer address
                (set_P6OUT (P6OUT s AND (NOT BIT0 AND NOT BIT2)) s))
            else if device = M then
              map_option snd (SPI_transfer address
                (set_P6OUT (P6OUT s AND (NOT BIT1 AND NOT BIT2)) s))
            else Some s);
     (_, s2) \<leftarrow> SPI_transfer data s1;
     Some (if device = AG then set_P6OUT (P6OUT s2 OR (BIT0 OR BIT2)) s2
           else if device = M then set_P6OUT (P6OUT s2 OR (BIT1 OR BIT2)) s2
           else s2)
   }"

subsection \<open>Initialisation\<close>

text \<open>
  \<^verbatim>\<open>void LSM9DS1_Init(void)\<close>: pin setup, eUSCI\_B1 setup, then six register writes.
\<close>

definition LSM9DS1_Init :: "mcu \<Rightarrow> mcu option" where
  "LSM9DS1_Init s = do {
     let s = s\<lparr>P6SEL0 := P6SEL0 s OR (BIT2 OR BIT3 OR BIT4 OR BIT5)\<rparr>;
     let s = s\<lparr>P6DIR := P6DIR s OR (BIT0 OR BIT1 OR BIT2)\<rparr>;
     let s = set_P6OUT (P6OUT s OR (BIT0 OR BIT1 OR BIT2)) s;
     let s = s\<lparr>CTLW0 := CTLW0 s OR EUSCI_B_CTLW0_SWRST\<rparr>;
     let s = s\<lparr>CTLW0 := EUSCI_B_CTLW0_SWRST OR EUSCI_B_CTLW0_MST OR EUSCI_B_CTLW0_SYNC
                  OR EUSCI_B_CTLW0_MSB OR EUSCI_B_CTLW0_MODE_1 OR EUSCI_B_CTLW0_STEM
                  OR EUSCI_B_CTLW0_CKPH OR EUSCI_B_CTLW0_SSEL__ACLK\<rparr>;
     let s = s\<lparr>BRW := 1\<rparr>;
     let s = s\<lparr>CTLW0 := CTLW0 s AND NOT EUSCI_B_CTLW0_SWRST\<rparr>;
     s \<leftarrow> write_SPI AG CTRL_REG1_G 0x20 s;
     s \<leftarrow> write_SPI AG CTRL_REG6_XL 0x40 s;
     s \<leftarrow> write_SPI AG CTRL_REG5_XL 0x38 s;
     s \<leftarrow> write_SPI M CTRL_REG3_M 0x00 s;
     s \<leftarrow> write_SPI M CTRL_REG1_M 0x74 s;
     write_SPI M CTRL_REG4_M 0x0C s
   }"

subsection \<open>Accessors\<close>

text \<open>
  \<^verbatim>\<open>uint16_t LSM9DS1_WHO_AM_I(enum ss_t device)\<close> returns \<^verbatim>\<open>RDxBuffer\<close> after a one-byte
  read of register \<^verbatim>\<open>WHO_AM_I\<close>.
\<close>

definition LSM9DS1_WHO_AM_I :: "ss_t \<Rightarrow> mcu \<Rightarrow> (16 word \<times> mcu) option" where
  "LSM9DS1_WHO_AM_I device s = do {
     s1 \<leftarrow> read_SPI device WHO_AM_I 1 s;
     Some (RDxBuffer s1, s1)
   }"

text \<open>
  The axis and temperature accessors. \<^verbatim>\<open>(int16_t)RDxBuffer\<close> keeps the 16 bits and reads
  them as two's complement (\<open>sint\<close>). The product and the quotient are computed in
  \<^verbatim>\<open>int\<close> (32 bits; a 16-bit value times 875 is below \<open>2 ^ 31\<close>, so the product is the
  mathematical one), C division truncates towards zero (\<open>sdiv\<close>), and the assignment back
  to the \<^verbatim>\<open>int16_t\<close> variable keeps the low 16 bits of the quotient (\<open>word_of_int\<close>).
  The result is the returned \<^verbatim>\<open>int16_t\<close>, read with \<open>sint\<close>.
\<close>

definition LSM9DS1_XA :: "mcu \<Rightarrow> (16 word \<times> mcu) option" where
  "LSM9DS1_XA s = do {
     s1 \<leftarrow> read_SPI AG OUT_X_L_XL 2 s;
     let accelX = RDxBuffer s1;
     let accelX = (word_of_int ((sint accelX * 61) sdiv 1000) :: 16 word);
     Some (accelX, s1)
   }"

definition LSM9DS1_YA :: "mcu \<Rightarrow> (16 word \<times> mcu) option" where
  "LSM9DS1_YA s = do {
     s1 \<leftarrow> read_SPI AG OUT_Y_L_XL 2 s;
     let accelY = RDxBuffer s1;
     let accelY = (word_of_int ((sint accelY * 61) sdiv 1000) :: 16 word);
     Some (accelY, s1)
   }"

definition LSM9DS1_ZA :: "mcu \<Rightarrow> (16 word \<times> mcu) option" where
  "LSM9DS1_ZA s = do {
     s1 \<leftarrow> read_SPI AG OUT_Z_L_XL 2 s;
     let accelZ = RDxBuffer s1;
     let accelZ = (word_of_int ((sint accelZ * 61) sdiv 1000) :: 16 word);
     Some (accelZ, s1)
   }"

definition LSM9DS1_XG :: "mcu \<Rightarrow> (16 word \<times> mcu) option" where
  "LSM9DS1_XG s = do {
     s1 \<leftarrow> read_SPI AG OUT_X_L_G 2 s;
     let gyroX = RDxBuffer s1;
     let gyroX = (word_of_int ((sint gyroX * 875) sdiv 100) :: 16 word);
     Some (gyroX, s1)
   }"

definition LSM9DS1_YG :: "mcu \<Rightarrow> (16 word \<times> mcu) option" where
  "LSM9DS1_YG s = do {
     s1 \<leftarrow> read_SPI AG OUT_Y_L_G 2 s;
     let gyroY = RDxBuffer s1;
     let gyroY = (word_of_int ((sint gyroY * 875) sdiv 100) :: 16 word);
     Some (gyroY, s1)
   }"

definition LSM9DS1_ZG :: "mcu \<Rightarrow> (16 word \<times> mcu) option" where
  "LSM9DS1_ZG s = do {
     s1 \<leftarrow> read_SPI AG OUT_Z_L_G 2 s;
     let gyroZ = RDxBuffer s1;
     let gyroZ = (word_of_int ((sint gyroZ * 875) sdiv 100) :: 16 word);
     Some (gyroZ, s1)
   }"

definition LSM9DS1_XM :: "mcu \<Rightarrow> (16 word \<times> mcu) option" where
  "LSM9DS1_XM s = do {
     s1 \<leftarrow> read_SPI M OUT_X_L_M 2 s;
     let magX = RDxBuffer s1;
     let magX = (word_of_int ((sint magX * 14) sdiv 100) :: 16 word);
     Some (magX, s1)
   }"

definition LSM9DS1_YM :: "mcu \<Rightarrow> (16 word \<times> mcu) option" where
  "LSM9DS1_YM s = do {
     s1 \<leftarrow> read_SPI M OUT_Y_L_M 2 s;
     let magY = RDxBuffer s1;
     let magY = (word_of_int ((sint magY * 14) sdiv 100) :: 16 word);
     Some (magY, s1)
   }"

definition LSM9DS1_ZM :: "mcu \<Rightarrow> (16 word \<times> mcu) option" where
  "LSM9DS1_ZM s = do {
     s1 \<leftarrow> read_SPI M OUT_Z_L_M 2 s;
     let magZ = RDxBuffer s1;
     let magZ = (word_of_int ((sint magZ * 14) sdiv 100) :: 16 word);
     Some (magZ, s1)
   }"

definition LSM9DS1_TMP :: "mcu \<Rightarrow> (16 word \<times> mcu) option" where
  "LSM9DS1_TMP s = do {
     s1 \<leftarrow> read_SPI AG OUT_TEMP_L 2 s;
     let temp = RDxBuffer s1;
     let temp = (word_of_int ((sint temp * 10) sdiv 16) :: 16 word);
     Some (temp, s1)
   }"

subsection \<open>Observations\<close>

text \<open>
  The bus never stays busy for ever: after every read of the status register a later
  read finds the busy flag clear. Without this the driver does not return.
\<close>

definition responsive :: "mcu \<Rightarrow> bool" where
  "responsive s \<longleftrightarrow> (\<forall>k. \<exists>j\<ge>k. STATW s j AND EUSCI_B_STATW_SPI_BUSY = 0)"

text \<open>The byte the \<open>i\<close>-th transfer from now on returns.\<close>

definition rx :: "mcu \<Rightarrow> nat \<Rightarrow> 8 word" where
  "rx s i = ucast (RXBUF s (xfers s + i))"

text \<open>The bytes sent, and the bytes received, in a list of events.\<close>

fun sent :: "event list \<Rightarrow> 8 word list" where
  "sent [] = []"
| "sent (Port p # es) = sent es"
| "sent (Xfer t r # es) = t # sent es"

fun received :: "event list \<Rightarrow> 8 word list" where
  "received [] = []"
| "received (Port p # es) = received es"
| "received (Xfer t r # es) = r # received es"

text \<open>
  The chip-select lines are active low: CSAG is P6.0 and CSM is P6.1, so a line is
  asserted when its bit of \<^verbatim>\<open>P6OUT\<close> is 0.
\<close>

definition CSAG_asserted :: "8 word \<Rightarrow> bool" where
  "CSAG_asserted p \<longleftrightarrow> \<not> bit p 0"

definition CSM_asserted :: "8 word \<Rightarrow> bool" where
  "CSM_asserted p \<longleftrightarrow> \<not> bit p 1"

text \<open>
  The raw sample the bus delivers to a two-byte read on AG or M that starts in state
  \<open>s\<close>: the byte shifted in while the address goes out (\<open>rx s 0\<close>) is dropped, the
  next byte (\<open>rx s 1\<close>) is the low byte and the one after it (\<open>rx s 2\<close>) the high byte.
\<close>

definition bus_sample :: "mcu \<Rightarrow> 16 word" where
  "bus_sample s = push_bit 8 (ucast (rx s 2)) OR ucast (rx s 1)"

text \<open>
  The spec's scaling rule, in its own words: integer division truncating towards zero,
  written with the flooring \<open>div\<close> on non-negative numbers only.
\<close>

definition trunc_toward_zero :: "int \<Rightarrow> int \<Rightarrow> int" where
  "trunc_toward_zero x d = (if 0 \<le> x then x div d else - ((- x) div d))"

text \<open>
  A simulated board for concrete runs: both chip-selects high, the bus busy at every
  even-numbered read of the status register and free at every odd one, and the bytes of
  \<open>bs\<close> shifted in one per transfer (zero once they are used up).
\<close>

definition sim :: "8 word list \<Rightarrow> mcu" where
  "sim bs = \<lparr>P6SEL0 = 0, P6DIR = 0, P6OUT = 0x07, CTLW0 = 0, BRW = 0, RDxBuffer = 0,
     STATW = (\<lambda>k. if even k then 1 else 0),
     RXBUF = (\<lambda>n. if n < length bs then ucast (bs ! n) else 0),
     polls = 0, xfers = 0, trace = []\<rparr>"

text \<open>
  The bursts of a list of events: each maximal run of transfers between two stores to
  \<^verbatim>\<open>P6OUT\<close>, as the port value in force during the run and the bytes sent in it.
  \<open>p\<close> is the port value in force at the start, \<open>acc\<close> the bytes of the current run.
\<close>

fun bursts :: "8 word \<Rightarrow> 8 word list \<Rightarrow> event list \<Rightarrow> (8 word \<times> 8 word list) list" where
  "bursts p acc [] = (if acc = [] then [] else [(p, acc)])"
| "bursts p acc (Port q # es) = (if acc = [] then [] else [(p, acc)]) @ bursts q [] es"
| "bursts p acc (Xfer t r # es) = bursts p (acc @ [t]) es"

text \<open>
  For the proofs only: the index the busy-wait reaches when it returns. The model
  above does not use it.
\<close>

definition polls_after :: "(nat \<Rightarrow> 16 word) \<Rightarrow> nat \<Rightarrow> nat" where
  "polls_after statw k = the (wait_while_busy statw k)"

section \<open>The transport returns when the bus is responsive\<close>

lemma wait_while_busy_returns:
  "statw j AND EUSCI_B_STATW_SPI_BUSY = 0 \<Longrightarrow> k \<le> j \<Longrightarrow> \<exists>k'. wait_while_busy statw k = Some k'"
proof (induction "j - k" arbitrary: k)
  case 0
  then have "k = j" by simp
  with 0 show ?case by (subst wait_while_busy.simps) simp
next
  case (Suc d)
  show ?case
  proof (cases "statw k AND EUSCI_B_STATW_SPI_BUSY = 0")
    case True
    then show ?thesis by (subst wait_while_busy.simps) simp
  next
    case False
    from Suc have "d = j - Suc k" and "Suc k \<le> j" by simp_all
    with Suc have "\<exists>k'. wait_while_busy statw (Suc k) = Some k'" by blast
    with False show ?thesis by (subst wait_while_busy.simps) simp
  qed
qed

lemma responsive_set_P6OUT [simp]: "responsive (set_P6OUT v s) = responsive s"
  by (simp add: responsive_def set_P6OUT_def)

lemma responsive_updates [simp]:
  "responsive (s\<lparr>polls := k\<rparr>) = responsive s"
  "responsive (s\<lparr>xfers := n\<rparr>) = responsive s"
  "responsive (s\<lparr>trace := t\<rparr>) = responsive s"
  "responsive (s\<lparr>RDxBuffer := v\<rparr>) = responsive s"
  "responsive (s\<lparr>P6OUT := p\<rparr>) = responsive s"
  "responsive (s\<lparr>P6DIR := p\<rparr>) = responsive s"
  "responsive (s\<lparr>P6SEL0 := p\<rparr>) = responsive s"
  "responsive (s\<lparr>CTLW0 := c\<rparr>) = responsive s"
  "responsive (s\<lparr>BRW := c\<rparr>) = responsive s"
  by (simp_all add: responsive_def)

lemma SPI_transfer_eq:
  assumes "responsive s"
  shows "SPI_transfer data s =
    Some (rx s 0, s\<lparr>polls := polls_after (STATW s) (polls s), xfers := Suc (xfers s),
                     trace := trace s @ [Xfer data (rx s 0)]\<rparr>)"
proof -
  from assms obtain j where "polls s \<le> j" "STATW s j AND EUSCI_B_STATW_SPI_BUSY = 0"
    unfolding responsive_def by blast
  then obtain k where "wait_while_busy (STATW s) (polls s) = Some k"
    using wait_while_busy_returns by blast
  then show ?thesis by (simp add: SPI_transfer_def rx_def Let_def polls_after_def)
qed

lemma responsive_sim: "responsive (sim bs)"
  unfolding responsive_def
proof
  fix k
  show "\<exists>j\<ge>k. STATW (sim bs) j AND EUSCI_B_STATW_SPI_BUSY = 0"
    by (rule exI [of _ "if even k then Suc k else k"])
      (simp add: sim_def EUSCI_B_STATW_SPI_BUSY_def)
qed

text \<open>
  Conversely, when the busy flag stays set from the current read on, the wait never
  ends and \<^verbatim>\<open>SPI_transfer\<close> does not return.
\<close>

lemma wait_while_busy_Some_free:
  assumes "wait_while_busy statw k = Some r"
  shows "\<exists>j\<ge>k. statw j AND EUSCI_B_STATW_SPI_BUSY = 0"
proof (rule wait_while_busy.raw_induct
    [where P = "\<lambda>st k r. \<exists>j\<ge>k. st j AND EUSCI_B_STATW_SPI_BUSY = 0", OF _ assms])
  fix f :: "(nat \<Rightarrow> 16 word) \<Rightarrow> nat \<Rightarrow> nat option" and st k r
  assume IH: "\<And>st k r. f st k = Some r \<Longrightarrow> \<exists>j\<ge>k. st j AND EUSCI_B_STATW_SPI_BUSY = 0"
    and eq: "(if st k AND EUSCI_B_STATW_SPI_BUSY \<noteq> 0 then f st (Suc k) else Some (Suc k))
              = Some r"
  show "\<exists>j\<ge>k. st j AND EUSCI_B_STATW_SPI_BUSY = 0"
  proof (cases "st k AND EUSCI_B_STATW_SPI_BUSY = 0")
    case True
    then show ?thesis by (intro exI [of _ k]) simp
  next
    case False
    with eq have "f st (Suc k) = Some r" by simp
    from IH [OF this] obtain j where "Suc k \<le> j" "st j AND EUSCI_B_STATW_SPI_BUSY = 0"
      by blast
    then show ?thesis by (intro exI [of _ j]) simp
  qed
qed

lemma SPI_transfer_hangs:
  assumes "\<forall>j\<ge>polls s. STATW s j AND EUSCI_B_STATW_SPI_BUSY \<noteq> 0"
  shows "SPI_transfer data s = None"
proof (cases "wait_while_busy (STATW s) (polls s)")
  case None
  then show ?thesis by (simp add: SPI_transfer_def)
next
  case (Some r)
  from wait_while_busy_Some_free [OF this] assms show ?thesis by blast
qed

section \<open>Bits and bytes\<close>

lemma deassert_after_assert:
  "(x AND (NOT a AND NOT b)) OR (a OR b) = x OR (a OR (b :: 8 word))"
  by (rule bit_eqI) (auto simp: bit_simps)

lemma idle_absorb:
  "(x OR (a OR b OR c)) OR (a OR c) = x OR (a OR b OR (c :: 8 word))"
  "(x OR (a OR b OR c)) OR (b OR c) = x OR (a OR b OR (c :: 8 word))"
  by (rule bit_eqI; auto simp: bit_simps)+

lemma select_AG_bits:
  "CSAG_asserted (p AND (NOT BIT0 AND NOT BIT2))"
  "CSM_asserted (p AND (NOT BIT0 AND NOT BIT2)) = CSM_asserted p"
  "\<not> CSAG_asserted (p OR (BIT0 OR BIT2))"
  "CSM_asserted (p OR (BIT0 OR BIT2)) = CSM_asserted p"
  by (simp_all add: CSAG_asserted_def CSM_asserted_def BIT0_def BIT2_def bit_simps)

lemma select_M_bits:
  "CSM_asserted (p AND (NOT BIT1 AND NOT BIT2))"
  "CSAG_asserted (p AND (NOT BIT1 AND NOT BIT2)) = CSAG_asserted p"
  "\<not> CSM_asserted (p OR (BIT1 OR BIT2))"
  "CSAG_asserted (p OR (BIT1 OR BIT2)) = CSAG_asserted p"
  by (simp_all add: CSAG_asserted_def CSM_asserted_def BIT1_def BIT2_def bit_simps)

lemma idle_bits:
  "\<not> CSAG_asserted (p OR (BIT0 OR BIT1 OR BIT2))"
  "\<not> CSM_asserted (p OR (BIT0 OR BIT1 OR BIT2))"
  by (simp_all add: CSAG_asserted_def CSM_asserted_def BIT0_def BIT1_def BIT2_def bit_simps)

lemma read_flag_bits:
  "bit (a OR 0x80 :: 8 word) 7"
  "bit (a OR 0xC0 :: 8 word) 7"
  "bit (a OR 0xC0 :: 8 word) 6"
  "bit (a OR 0x80 :: 8 word) 6 = bit a 6"
  by (simp_all add: bit_simps)

lemma seven_bit_address:
  fixes a :: "8 word"
  assumes "a \<le> 0x7F"
  shows "\<not> bit a 7"
proof -
  from assms have "unat a \<le> 127" by (simp add: word_le_nat_alt)
  then have "unat a div 2 ^ 7 = 0" by simp
  then have "\<not> bit (unat a) 7" by (simp add: bit_iff_odd)
  then show ?thesis by (simp add: bit_unsigned_iff)
qed

lemma unat_ucast_byte: "unat (ucast (b :: 8 word) :: 16 word) = unat b"
proof -
  have "unat b < 2 ^ 16" using unsigned_less [of b, where 'a = nat] by simp
  then show ?thesis by (simp add: unsigned_ucast_eq take_bit_nat_eq_self)
qed

lemma byte_le_255: "(ucast (b :: 8 word) :: 16 word) \<le> 0xFF"
  using unsigned_less [of b, where 'a = nat]
  by (simp add: word_le_nat_alt unat_ucast_byte)

lemma byte_high_zero: "drop_bit 8 (ucast (b :: 8 word) :: 16 word) = 0"
  by (rule bit_word_eqI) (auto simp: bit_simps dest: bit_imp_le_length)



lemma unat_of_pair:
  fixes lo hi :: "8 word"
  shows "unat (push_bit 8 (ucast hi) OR ucast lo :: 16 word) = unat lo + 256 * unat hi"
proof -
  have lo: "unat lo < 256" and hi: "unat hi < 256"
    using unsigned_less [of lo, where 'a = nat] unsigned_less [of hi, where 'a = nat]
    by simp_all
  have "push_bit 8 (ucast hi) OR ucast lo = (push_bit 8 (ucast hi) + ucast lo :: 16 word)"
    by (rule disjunctive_add [symmetric]) (auto simp: bit_simps dest: bit_imp_le_length)
  also have "\<dots> = ucast hi * 256 + ucast lo" by (simp add: push_bit_eq_mult)
  finally have "unat (push_bit 8 (ucast hi) OR ucast lo :: 16 word)
     = unat (ucast hi * 256 + ucast lo :: 16 word)" by simp
  also have "\<dots> = (unat hi * 256 + unat lo) mod 65536"
    by (simp add: unat_word_ariths unat_ucast_byte mod_simps)
  also have "\<dots> = unat lo + 256 * unat hi" using lo hi by simp
  finally show ?thesis .
qed

section \<open>C division and the conversion back to 16 bits\<close>

lemma sdiv_trunc: "0 < d \<Longrightarrow> (x::int) sdiv d = trunc_toward_zero x d"
  by (simp add: signed_divide_int_def sgn_if trunc_toward_zero_def)

lemma sint_narrow: "- 32768 \<le> y \<Longrightarrow> y < 32768 \<Longrightarrow> sint (word_of_int y :: 16 word) = y"
  by (simp add: sint_sbintrunc' signed_take_bit_int_eq_self)

lemma sint16_bounds: "- 32768 \<le> sint (r :: 16 word)" "sint (r :: 16 word) < 32768"
  using sint_ge [of r] sint_lt [of r] by simp_all

lemma scale_accel:
  "sint (word_of_int ((sint (r :: 16 word) * 61) sdiv 1000) :: 16 word)
     = trunc_toward_zero (sint r * 61) 1000"
proof -
  have "- 32768 \<le> (sint r * 61) sdiv 1000 \<and> (sint r * 61) sdiv 1000 < 32768"
    using sint16_bounds [of r] by (auto simp: sdiv_trunc trunc_toward_zero_def)
  then show ?thesis by (simp add: sint_narrow sdiv_trunc)
qed

lemma scale_temp:
  "sint (word_of_int ((sint (r :: 16 word) * 10) sdiv 16) :: 16 word)
     = trunc_toward_zero (sint r * 10) 16"
proof -
  have "- 32768 \<le> (sint r * 10) sdiv 16 \<and> (sint r * 10) sdiv 16 < 32768"
    using sint16_bounds [of r] by (auto simp: sdiv_trunc trunc_toward_zero_def)
  then show ?thesis by (simp add: sint_narrow sdiv_trunc)
qed

lemma scale_gyro_in_range:
  assumes "- 3745 \<le> sint (r :: 16 word)" and "sint r \<le> 3744"
  shows "sint (word_of_int ((sint r * 875) sdiv 100) :: 16 word)
     = trunc_toward_zero (sint r * 875) 100"
proof -
  have "- 32768 \<le> (sint r * 875) sdiv 100 \<and> (sint r * 875) sdiv 100 < 32768"
    using assms by (auto simp: sdiv_trunc trunc_toward_zero_def)
  then show ?thesis by (simp add: sint_narrow sdiv_trunc)
qed

section \<open>What one transaction does\<close>

lemma read_SPI_AG:
  assumes "responsive s"
  shows "\<exists>s'. read_SPI AG a n s = Some s'
    \<and> trace s' = trace s @ Port (P6OUT s AND (NOT BIT0 AND NOT BIT2))
        # Xfer (a OR 0x80) (rx s 0) # Xfer 0 (rx s 1)
        # (if n = 2 then [Xfer 0 (rx s 2)] else []) @ [Port (P6OUT s OR (BIT0 OR BIT2))]
    \<and> P6OUT s' = P6OUT s OR (BIT0 OR BIT2)
    \<and> RDxBuffer s' =
        (if n = 2 then push_bit 8 (ucast (rx s 2)) OR ucast (rx s 1) else ucast (rx s 1))
    \<and> STATW s' = STATW s \<and> RXBUF s' = RXBUF s
    \<and> xfers s' = xfers s + (if n = 2 then 3 else 2)"
  using assms
  by (simp add: read_SPI_def SPI_transfer_eq)
    (simp add: set_P6OUT_def rx_def deassert_after_assert)

lemma read_SPI_M:
  assumes "responsive s"
  shows "\<exists>s'. read_SPI M a n s = Some s'
    \<and> trace s' = trace s @ Port (P6OUT s AND (NOT BIT1 AND NOT BIT2))
        # Xfer (a OR 0xC0) (rx s 0) # Xfer 0 (rx s 1)
        # (if n = 2 then [Xfer 0 (rx s 2)] else []) @ [Port (P6OUT s OR (BIT1 OR BIT2))]
    \<and> P6OUT s' = P6OUT s OR (BIT1 OR BIT2)
    \<and> RDxBuffer s' =
        (if n = 2 then push_bit 8 (ucast (rx s 2)) OR ucast (rx s 1) else ucast (rx s 1))
    \<and> STATW s' = STATW s \<and> RXBUF s' = RXBUF s
    \<and> xfers s' = xfers s + (if n = 2 then 3 else 2)"
  using assms
  by (simp add: read_SPI_def SPI_transfer_eq)
    (simp add: set_P6OUT_def rx_def deassert_after_assert)

lemma read_SPI_other:
  assumes "responsive s" and "d \<noteq> AG" and "d \<noteq> M"
  shows "\<exists>s'. read_SPI d a n s = Some s'
    \<and> trace s' = trace s @ Xfer 0 (rx s 0) # (if n = 2 then [Xfer 0 (rx s 1)] else [])
    \<and> P6OUT s' = P6OUT s
    \<and> RDxBuffer s' =
        (if n = 2 then push_bit 8 (ucast (rx s 1)) OR ucast (rx s 0) else ucast (rx s 0))
    \<and> STATW s' = STATW s \<and> RXBUF s' = RXBUF s
    \<and> xfers s' = xfers s + (if n = 2 then 2 else 1)"
  using assms
  by (simp add: read_SPI_def SPI_transfer_eq) (simp add: rx_def)

lemma write_SPI_AG:
  assumes "responsive s"
  shows "\<exists>s'. write_SPI AG a v s = Some s'
    \<and> trace s' = trace s @ [Port (P6OUT s AND (NOT BIT0 AND NOT BIT2)),
         Xfer a (rx s 0), Xfer v (rx s 1), Port (P6OUT s OR (BIT0 OR BIT2))]
    \<and> P6OUT s' = P6OUT s OR (BIT0 OR BIT2)
    \<and> RDxBuffer s' = RDxBuffer s
    \<and> STATW s' = STATW s \<and> RXBUF s' = RXBUF s \<and> xfers s' = xfers s + 2"
  using assms
  by (simp add: write_SPI_def SPI_transfer_eq)
    (simp add: set_P6OUT_def rx_def deassert_after_assert)

lemma write_SPI_M:
  assumes "responsive s"
  shows "\<exists>s'. write_SPI M a v s = Some s'
    \<and> trace s' = trace s @ [Port (P6OUT s AND (NOT BIT1 AND NOT BIT2)),
         Xfer a (rx s 0), Xfer v (rx s 1), Port (P6OUT s OR (BIT1 OR BIT2))]
    \<and> P6OUT s' = P6OUT s OR (BIT1 OR BIT2)
    \<and> RDxBuffer s' = RDxBuffer s
    \<and> STATW s' = STATW s \<and> RXBUF s' = RXBUF s \<and> xfers s' = xfers s + 2"
  using assms
  by (simp add: write_SPI_def SPI_transfer_eq)
    (simp add: set_P6OUT_def rx_def deassert_after_assert)

lemma write_SPI_other:
  assumes "responsive s" and "d \<noteq> AG" and "d \<noteq> M"
  shows "\<exists>s'. write_SPI d a v s = Some s'
    \<and> trace s' = trace s @ [Xfer v (rx s 0)]
    \<and> P6OUT s' = P6OUT s
    \<and> RDxBuffer s' = RDxBuffer s
    \<and> STATW s' = STATW s \<and> RXBUF s' = RXBUF s \<and> xfers s' = xfers s + 1"
  using assms
  by (simp add: write_SPI_def SPI_transfer_eq)

lemma read_SPI_sent:
  assumes "responsive s"
  shows "\<exists>s'. read_SPI d a n s = Some s'
    \<and> sent (drop (length (trace s)) (trace s')) =
        (if d = AG then [a OR 0x80] else if d = M then [a OR 0xC0] else [])
        @ (if n = 2 then [0, 0] else [0])"
proof (cases d)
  case AG
  with read_SPI_AG [OF assms, of a n] show ?thesis by auto
next
  case M
  with read_SPI_M [OF assms, of a n] show ?thesis by auto
next
  case A
  with read_SPI_other [OF assms, of A a n] show ?thesis by auto
next
  case G
  with read_SPI_other [OF assms, of G a n] show ?thesis by auto
qed

section \<open>Read framing\<close>

text \<open>
  C1, as amended. During a read transaction the first byte sent on the bus is the
  register address with the read flag, bit 7, set: for device AG it is \<open>A OR 0x80\<close>, for
  device M it is \<open>A OR 0xC0\<close> (bit 6 is set as well). The dummy bytes that follow are 0.
\<close>

theorem read_SPI_address_byte:
  assumes "responsive s" and "d = AG \<or> d = M"
  shows "\<exists>s'. read_SPI d a n s = Some s'
    \<and> sent (drop (length (trace s)) (trace s')) =
        (if d = AG then a OR 0x80 else a OR 0xC0) # (if n = 2 then [0, 0] else [0])
    \<and> bit (if d = AG then a OR 0x80 else a OR 0xC0) 7"
  using read_SPI_sent [OF assms(1), of d a n] assms(2)
  by (auto simp: read_flag_bits)

theorem read_SPI_address_byte_witness:
  "responsive (sim [0, 0x34, 0x12])
   \<and> (\<exists>s'. read_SPI AG OUT_X_L_XL 2 (sim [0, 0x34, 0x12]) = Some s'
        \<and> sent (trace s') = [0xA8, 0, 0] \<and> bit (0xA8 :: 8 word) 7)"
  using read_SPI_address_byte [where s = "sim [0, 0x34, 0x12]" and d = AG
      and a = OUT_X_L_XL and n = 2]
  by (simp add: responsive_sim OUT_X_L_XL_def) (simp add: sim_def)

text \<open>
  C1 as stated fails for device M: a one-byte read of register 0x0F on M sends 0xCF
  first, not \<open>0x0F OR 0x80 = 0x8F\<close>.
\<close>

theorem read_SPI_M_first_byte_counterexample:
  "map_option trace (read_SPI M WHO_AM_I 1 (sim []))
     = Some [Port 0x01, Xfer 0xCF 0, Xfer 0 0, Port 0x07]
   \<and> (0xCF :: 8 word) \<noteq> WHO_AM_I OR 0x80"
  using read_SPI_M [where s = "sim []" and a = WHO_AM_I and n = 1, OF responsive_sim]
  by (auto simp: sim_def rx_def WHO_AM_I_def BIT1_def BIT2_def)

section \<open>Byte assembly\<close>




text \<open>
  C10. A one-byte read (\<open>bytesToRead \<noteq> 2\<close>) leaves a value of at most 0xFF in
  \<^verbatim>\<open>RDxBuffer\<close>, its high byte zero, whatever the device; so \<^verbatim>\<open>LSM9DS1_WHO_AM_I\<close>
  returns a value in 0..255.
\<close>

theorem one_byte_read_high_byte_zero:
  assumes "responsive s" and "n \<noteq> 2"
  shows "(\<exists>s'. read_SPI d a n s = Some s'
           \<and> RDxBuffer s' \<le> 0xFF \<and> drop_bit 8 (RDxBuffer s') = 0)
       \<and> (\<exists>v s'. LSM9DS1_WHO_AM_I d s = Some (v, s') \<and> unat v \<le> 255)"
proof -
  have one: "\<exists>s' b. read_SPI d a' m s = Some s' \<and> RDxBuffer s' = ucast (b :: 8 word)"
    if "m \<noteq> 2" for a' m
  proof (cases d)
    case AG
    with read_SPI_AG [OF assms(1), of a' m] that show ?thesis by auto
  next
    case M
    with read_SPI_M [OF assms(1), of a' m] that show ?thesis by auto
  next
    case A
    with read_SPI_other [OF assms(1), of A a' m] that show ?thesis by auto
  next
    case G
    with read_SPI_other [OF assms(1), of G a' m] that show ?thesis by auto
  qed
  from one [OF assms(2), of a] have first:
    "\<exists>s'. read_SPI d a n s = Some s' \<and> RDxBuffer s' \<le> 0xFF \<and> drop_bit 8 (RDxBuffer s') = 0"
    by (auto simp: byte_le_255 byte_high_zero)
  from one [of 1 WHO_AM_I] obtain s' b where
    "read_SPI d WHO_AM_I 1 s = Some s'" "RDxBuffer s' = ucast (b :: 8 word)"
    by auto
  then have "LSM9DS1_WHO_AM_I d s = Some (ucast b, s')"
    by (simp add: LSM9DS1_WHO_AM_I_def)
  moreover have "unat (ucast b :: 16 word) \<le> 255"
    using unsigned_less [of b, where 'a = nat] by (simp add: unat_ucast_byte)
  ultimately show ?thesis using first by blast
qed

theorem one_byte_read_high_byte_zero_witness:
  "responsive (sim [0, 0x68]) \<and> (1 :: 8 word) \<noteq> 2
   \<and> map_option fst (LSM9DS1_WHO_AM_I AG (sim [0, 0x68])) = Some 0x68
   \<and> unat (0x68 :: 16 word) \<le> 255"
proof -
  let ?s = "sim [0, 0x68]"
  from one_byte_read_high_byte_zero [where s = ?s and n = 1 and d = AG and a = WHO_AM_I,
      OF responsive_sim]
  obtain v s' where w: "LSM9DS1_WHO_AM_I AG ?s = Some (v, s')" and "unat v \<le> 255"
    by auto
  from read_SPI_AG [where s = ?s and a = WHO_AM_I and n = 1, OF responsive_sim]
  have "LSM9DS1_WHO_AM_I AG ?s = Some (0x68, the (read_SPI AG WHO_AM_I 1 ?s))"
    by (auto simp: LSM9DS1_WHO_AM_I_def rx_def sim_def)
  with w show ?thesis by (simp add: responsive_sim)
qed

section \<open>Write framing and chip-select framing\<close>

text \<open>
  C6. For device AG or M, a 7-bit register address \<open>a\<close> and a data byte \<open>v\<close>, a write
  transaction sends exactly two bytes: first \<open>a\<close> unchanged, whose most-significant bit
  is 0, then \<open>v\<close>.
\<close>

theorem write_SPI_two_bytes:
  assumes "responsive s" and "d = AG \<or> d = M" and "a \<le> 0x7F"
  shows "\<exists>s'. write_SPI d a v s = Some s'
    \<and> sent (drop (length (trace s)) (trace s')) = [a, v] \<and> \<not> bit a 7"
proof -
  from assms(2) show ?thesis
  proof
    assume "d = AG"
    with write_SPI_AG [OF assms(1), of a v] seven_bit_address [OF assms(3)]
    show ?thesis by auto
  next
    assume "d = M"
    with write_SPI_M [OF assms(1), of a v] seven_bit_address [OF assms(3)]
    show ?thesis by auto
  qed
qed

theorem write_SPI_two_bytes_witness:
  "responsive (sim []) \<and> CTRL_REG1_M \<le> 0x7F
   \<and> (\<exists>s'. write_SPI M CTRL_REG1_M 0x74 (sim []) = Some s' \<and> sent (trace s') = [0x20, 0x74])
   \<and> \<not> bit (0x20 :: 8 word) 7"
  using write_SPI_two_bytes [where s = "sim []" and d = M and a = CTRL_REG1_M and v = "0x74",
      OF responsive_sim]
  by (simp add: responsive_sim CTRL_REG1_M_def) (simp add: sim_def)

text \<open>
  C5. A read or write transaction on device AG or M that starts with both chip-select
  lines deasserted makes exactly two stores to \<^verbatim>\<open>P6OUT\<close>: one before the address byte,
  after which the selected device's line is asserted and the other line is not, and
  one right after the last data byte, after which neither line is asserted. No store
  falls between the transfers, so the selected line stays asserted for the address
  byte and every data byte, and at no point are both lines asserted.
\<close>

theorem chip_select_framing:
  assumes "responsive s" and "d = AG \<or> d = M"
    and "\<not> CSAG_asserted (P6OUT s)" and "\<not> CSM_asserted (P6OUT s)"
  shows "(\<exists>s' p q b. read_SPI d a n s = Some s'
           \<and> trace s' = trace s @ Port p # Xfer b (rx s 0) # Xfer 0 (rx s 1)
               # (if n = 2 then [Xfer 0 (rx s 2)] else []) @ [Port q]
           \<and> CSAG_asserted p = (d = AG) \<and> CSM_asserted p = (d = M)
           \<and> \<not> CSAG_asserted q \<and> \<not> CSM_asserted q \<and> P6OUT s' = q)
       \<and> (\<exists>s' p q. write_SPI d a v s = Some s'
           \<and> trace s' = trace s @ [Port p, Xfer a (rx s 0), Xfer v (rx s 1), Port q]
           \<and> CSAG_asserted p = (d = AG) \<and> CSM_asserted p = (d = M)
           \<and> \<not> CSAG_asserted q \<and> \<not> CSM_asserted q \<and> P6OUT s' = q)"
proof -
  from assms(2) show ?thesis
  proof
    assume d: "d = AG"
    from read_SPI_AG [OF assms(1), of a n] obtain s1 where
      "read_SPI AG a n s = Some s1"
      "trace s1 = trace s @ Port (P6OUT s AND (NOT BIT0 AND NOT BIT2))
        # Xfer (a OR 0x80) (rx s 0) # Xfer 0 (rx s 1)
        # (if n = 2 then [Xfer 0 (rx s 2)] else []) @ [Port (P6OUT s OR (BIT0 OR BIT2))]"
      "P6OUT s1 = P6OUT s OR (BIT0 OR BIT2)"
      by blast
    moreover from write_SPI_AG [OF assms(1), of a v] obtain s2 where
      "write_SPI AG a v s = Some s2"
      "trace s2 = trace s @ [Port (P6OUT s AND (NOT BIT0 AND NOT BIT2)),
         Xfer a (rx s 0), Xfer v (rx s 1), Port (P6OUT s OR (BIT0 OR BIT2))]"
      "P6OUT s2 = P6OUT s OR (BIT0 OR BIT2)"
      by blast
    ultimately show ?thesis
      using assms(3,4) unfolding d by (simp add: select_AG_bits)
  next
    assume d: "d = M"
    from read_SPI_M [OF assms(1), of a n] obtain s1 where
      "read_SPI M a n s = Some s1"
      "trace s1 = trace s @ Port (P6OUT s AND (NOT BIT1 AND NOT BIT2))
        # Xfer (a OR 0xC0) (rx s 0) # Xfer 0 (rx s 1)
        # (if n = 2 then [Xfer 0 (rx s 2)] else []) @ [Port (P6OUT s OR (BIT1 OR BIT2))]"
      "P6OUT s1 = P6OUT s OR (BIT1 OR BIT2)"
      by blast
    moreover from write_SPI_M [OF assms(1), of a v] obtain s2 where
      "write_SPI M a v s = Some s2"
      "trace s2 = trace s @ [Port (P6OUT s AND (NOT BIT1 AND NOT BIT2)),
         Xfer a (rx s 0), Xfer v (rx s 1), Port (P6OUT s OR (BIT1 OR BIT2))]"
      "P6OUT s2 = P6OUT s OR (BIT1 OR BIT2)"
      by blast
    ultimately show ?thesis
      using assms(3,4) unfolding d by (simp add: select_M_bits)
  qed
qed

theorem chip_select_framing_witness:
  "responsive (sim [])
   \<and> \<not> CSAG_asserted (P6OUT (sim [])) \<and> \<not> CSM_asserted (P6OUT (sim []))
   \<and> map_option trace (read_SPI AG OUT_TEMP_L 2 (sim []))
       = Some [Port 0x02, Xfer 0x95 0, Xfer 0 0, Xfer 0 0, Port 0x07]
   \<and> CSAG_asserted 0x02 \<and> \<not> CSM_asserted 0x02
   \<and> \<not> CSAG_asserted 0x07 \<and> \<not> CSM_asserted 0x07"
proof -
  let ?s = "sim []"
  have idle: "\<not> CSAG_asserted (P6OUT ?s)" "\<not> CSM_asserted (P6OUT ?s)"
    by (simp_all add: sim_def CSAG_asserted_def CSM_asserted_def)
  have dev: "AG = AG \<or> AG = M" by simp
  from chip_select_framing [where s = ?s and d = AG and a = OUT_TEMP_L and n = 2,
      OF responsive_sim dev idle, THEN conjunct1]
  obtain s' p q b where
    r: "read_SPI AG OUT_TEMP_L 2 ?s = Some s'" and
    t: "trace s' = trace ?s @ Port p # Xfer b (rx ?s 0) # Xfer 0 (rx ?s 1)
          # (if (2 :: 8 word) = 2 then [Xfer 0 (rx ?s 2)] else []) @ [Port q]" and
    sel: "CSAG_asserted p = (AG = AG)" "CSM_asserted p = (AG = M)"
      "\<not> CSAG_asserted q" "\<not> CSM_asserted q"
    by blast
  from read_SPI_AG [where s = ?s and a = OUT_TEMP_L and n = 2, OF responsive_sim] r
  have e: "trace s' = [Port 0x02, Xfer 0x95 0, Xfer 0 0, Xfer 0 0, Port 0x07]"
    by (auto simp: sim_def rx_def OUT_TEMP_L_def BIT0_def BIT2_def)
  with t have "p = 0x02" "q = 0x07" by (simp_all add: sim_def)
  with sel have "CSAG_asserted 0x02 \<and> \<not> CSM_asserted 0x02
       \<and> \<not> CSAG_asserted 0x07 \<and> \<not> CSM_asserted 0x07"
    by simp
  with e r idle show ?thesis by (simp add: responsive_sim)
qed

section \<open>A device value other than AG and M\<close>

text \<open>
  C9. With device \<open>A\<close> or \<open>G\<close>, \<^verbatim>\<open>read_SPI\<close> and \<^verbatim>\<open>write_SPI\<close> store nothing to
  \<^verbatim>\<open>P6OUT\<close> (no chip-select line is asserted or deasserted) and send no address byte:
  \<^verbatim>\<open>write_SPI\<close> sends the data byte only, \<^verbatim>\<open>read_SPI\<close> still makes its one or two dummy
  transfers and overwrites \<^verbatim>\<open>RDxBuffer\<close> with what they shift in, and
  \<^verbatim>\<open>LSM9DS1_WHO_AM_I\<close> returns the byte its single dummy transfer shifts in.
\<close>

theorem other_device_no_select_no_address:
  assumes "responsive s" and "d = A \<or> d = G"
  shows "(\<exists>s'. read_SPI d a n s = Some s'
           \<and> trace s' = trace s @ Xfer 0 (rx s 0) # (if n = 2 then [Xfer 0 (rx s 1)] else [])
           \<and> P6OUT s' = P6OUT s
           \<and> RDxBuffer s' =
               (if n = 2 then push_bit 8 (ucast (rx s 1)) OR ucast (rx s 0)
                else ucast (rx s 0)))
       \<and> (\<exists>s'. write_SPI d a v s = Some s'
           \<and> trace s' = trace s @ [Xfer v (rx s 0)] \<and> P6OUT s' = P6OUT s)
       \<and> (\<exists>s'. LSM9DS1_WHO_AM_I d s = Some (ucast (rx s 0), s')
           \<and> trace s' = trace s @ [Xfer 0 (rx s 0)] \<and> P6OUT s' = P6OUT s)"
proof -
  from assms(2) have d: "d \<noteq> AG" "d \<noteq> M" by auto
  from read_SPI_other [OF assms(1) d, of a n] have rd:
    "\<exists>s'. read_SPI d a n s = Some s'
       \<and> trace s' = trace s @ Xfer 0 (rx s 0) # (if n = 2 then [Xfer 0 (rx s 1)] else [])
       \<and> P6OUT s' = P6OUT s
       \<and> RDxBuffer s' =
           (if n = 2 then push_bit 8 (ucast (rx s 1)) OR ucast (rx s 0) else ucast (rx s 0))"
    by blast
  from write_SPI_other [OF assms(1) d, of a v] have wr:
    "\<exists>s'. write_SPI d a v s = Some s'
       \<and> trace s' = trace s @ [Xfer v (rx s 0)] \<and> P6OUT s' = P6OUT s"
    by blast
  from read_SPI_other [OF assms(1) d, of WHO_AM_I 1] have who:
    "\<exists>s'. LSM9DS1_WHO_AM_I d s = Some (ucast (rx s 0), s')
       \<and> trace s' = trace s @ [Xfer 0 (rx s 0)] \<and> P6OUT s' = P6OUT s"
    by (auto simp: LSM9DS1_WHO_AM_I_def)
  from rd wr who show ?thesis by blast
qed

theorem other_device_no_select_no_address_witness:
  "responsive (sim [0x5A])
   \<and> (\<exists>s'. LSM9DS1_WHO_AM_I G (sim [0x5A]) = Some (0x5A, s')
        \<and> trace s' = [Xfer 0 0x5A] \<and> P6OUT s' = 0x07)"
  using other_device_no_select_no_address [where s = "sim [0x5A]" and d = G,
      OF responsive_sim]
  by (simp add: responsive_sim) (simp add: sim_def rx_def)

section \<open>Scaling\<close>

lemma rx_sim: "rx (sim bs) i = (if i < length bs then bs ! i else 0)"
proof -
  have "ucast (ucast b :: 16 word) = b" for b :: "8 word"
    by (rule bit_word_eqI) (simp add: bit_simps)
  then show ?thesis by (simp add: rx_def sim_def)
qed

lemma read_SPI_AG_sample:
  assumes "responsive s"
  shows "\<exists>s'. read_SPI AG a 2 s = Some s'
    \<and> sent (drop (length (trace s)) (trace s')) = [a OR 0x80, 0, 0]
    \<and> received (drop (length (trace s)) (trace s')) = [rx s 0, rx s 1, rx s 2]
    \<and> RDxBuffer s' = bus_sample s"
  using read_SPI_AG [OF assms, of a 2] by (auto simp: bus_sample_def)

lemma read_SPI_AG_raw:
  assumes "responsive s"
  shows "\<exists>s'. read_SPI AG a 2 s = Some s'
    \<and> RDxBuffer s' = push_bit 8 (ucast (rx s 2)) OR ucast (rx s 1)"
  using read_SPI_AG [OF assms, of a 2] by auto

lemma unat_bus_sample: "unat (bus_sample s) = unat (rx s 1) + 256 * unat (rx s 2)"
  by (simp add: bus_sample_def unat_of_pair)

text \<open>
  C4. Each accelerometer accessor makes one two-byte read of its register on AG and
  returns the raw sample the bus delivers (low byte from the second transfer, high byte
  from the third, read as a signed 16-bit value) times 61 divided by 1000; the
  temperature accessor returns it times 10 divided by 16. The quotient is truncated
  towards zero: raw 1000 gives 61 and raw -1000 gives -61; for the temperature, raw
  -160 gives -100.
\<close>

theorem scaling_truncates_toward_zero:
  assumes "responsive s"
  shows "(\<exists>v s'. LSM9DS1_XA s = Some (v, s')
           \<and> sent (drop (length (trace s)) (trace s')) = [OUT_X_L_XL OR 0x80, 0, 0]
           \<and> received (drop (length (trace s)) (trace s')) = [rx s 0, rx s 1, rx s 2]
           \<and> RDxBuffer s' = bus_sample s
           \<and> sint v = trunc_toward_zero (sint (bus_sample s) * 61) 1000
           \<and> (sint (bus_sample s) = 1000 \<longrightarrow> sint v = 61)
           \<and> (sint (bus_sample s) = - 1000 \<longrightarrow> sint v = - 61))
       \<and> (\<exists>v s'. LSM9DS1_YA s = Some (v, s')
           \<and> sent (drop (length (trace s)) (trace s')) = [OUT_Y_L_XL OR 0x80, 0, 0]
           \<and> received (drop (length (trace s)) (trace s')) = [rx s 0, rx s 1, rx s 2]
           \<and> RDxBuffer s' = bus_sample s
           \<and> sint v = trunc_toward_zero (sint (bus_sample s) * 61) 1000
           \<and> (sint (bus_sample s) = 1000 \<longrightarrow> sint v = 61)
           \<and> (sint (bus_sample s) = - 1000 \<longrightarrow> sint v = - 61))
       \<and> (\<exists>v s'. LSM9DS1_ZA s = Some (v, s')
           \<and> sent (drop (length (trace s)) (trace s')) = [OUT_Z_L_XL OR 0x80, 0, 0]
           \<and> received (drop (length (trace s)) (trace s')) = [rx s 0, rx s 1, rx s 2]
           \<and> RDxBuffer s' = bus_sample s
           \<and> sint v = trunc_toward_zero (sint (bus_sample s) * 61) 1000
           \<and> (sint (bus_sample s) = 1000 \<longrightarrow> sint v = 61)
           \<and> (sint (bus_sample s) = - 1000 \<longrightarrow> sint v = - 61))
       \<and> (\<exists>v s'. LSM9DS1_TMP s = Some (v, s')
           \<and> sent (drop (length (trace s)) (trace s')) = [OUT_TEMP_L OR 0x80, 0, 0]
           \<and> received (drop (length (trace s)) (trace s')) = [rx s 0, rx s 1, rx s 2]
           \<and> RDxBuffer s' = bus_sample s
           \<and> sint v = trunc_toward_zero (sint (bus_sample s) * 10) 16
           \<and> (sint (bus_sample s) = - 160 \<longrightarrow> sint v = - 100))
       \<and> unat (bus_sample s) = unat (rx s 1) + 256 * unat (rx s 2)"
proof -
  have accel: "\<exists>s'. read_SPI AG a 2 s = Some s'
      \<and> sent (drop (length (trace s)) (trace s')) = [a OR 0x80, 0, 0]
      \<and> received (drop (length (trace s)) (trace s')) = [rx s 0, rx s 1, rx s 2]
      \<and> RDxBuffer s' = bus_sample s
      \<and> sint (word_of_int ((sint (RDxBuffer s') * 61) sdiv 1000) :: 16 word)
          = trunc_toward_zero (sint (bus_sample s) * 61) 1000
      \<and> (sint (bus_sample s) = 1000 \<longrightarrow>
          sint (word_of_int ((sint (RDxBuffer s') * 61) sdiv 1000) :: 16 word) = 61)
      \<and> (sint (bus_sample s) = - 1000 \<longrightarrow>
          sint (word_of_int ((sint (RDxBuffer s') * 61) sdiv 1000) :: 16 word) = - 61)" for a
  proof -
    from read_SPI_AG_sample [OF assms, of a] obtain s' where
      r: "read_SPI AG a 2 s = Some s'"
        "sent (drop (length (trace s)) (trace s')) = [a OR 0x80, 0, 0]"
        "received (drop (length (trace s)) (trace s')) = [rx s 0, rx s 1, rx s 2]" and
      b: "RDxBuffer s' = bus_sample s"
      by blast
    have "sint (word_of_int ((sint (RDxBuffer s') * 61) sdiv 1000) :: 16 word)
          = trunc_toward_zero (sint (bus_sample s) * 61) 1000"
      by (simp add: b scale_accel)
    moreover from this have
      "sint (bus_sample s) = 1000 \<longrightarrow>
          sint (word_of_int ((sint (RDxBuffer s') * 61) sdiv 1000) :: 16 word) = 61"
      "sint (bus_sample s) = - 1000 \<longrightarrow>
          sint (word_of_int ((sint (RDxBuffer s') * 61) sdiv 1000) :: 16 word) = - 61"
      by (simp_all add: trunc_toward_zero_def)
    ultimately show ?thesis using r b by blast
  qed
  have temp: "\<exists>s'. read_SPI AG a 2 s = Some s'
      \<and> sent (drop (length (trace s)) (trace s')) = [a OR 0x80, 0, 0]
      \<and> received (drop (length (trace s)) (trace s')) = [rx s 0, rx s 1, rx s 2]
      \<and> RDxBuffer s' = bus_sample s
      \<and> sint (word_of_int ((sint (RDxBuffer s') * 10) sdiv 16) :: 16 word)
          = trunc_toward_zero (sint (bus_sample s) * 10) 16
      \<and> (sint (bus_sample s) = - 160 \<longrightarrow>
          sint (word_of_int ((sint (RDxBuffer s') * 10) sdiv 16) :: 16 word) = - 100)" for a
  proof -
    from read_SPI_AG_sample [OF assms, of a] obtain s' where
      r: "read_SPI AG a 2 s = Some s'"
        "sent (drop (length (trace s)) (trace s')) = [a OR 0x80, 0, 0]"
        "received (drop (length (trace s)) (trace s')) = [rx s 0, rx s 1, rx s 2]" and
      b: "RDxBuffer s' = bus_sample s"
      by blast
    have "sint (word_of_int ((sint (RDxBuffer s') * 10) sdiv 16) :: 16 word)
          = trunc_toward_zero (sint (bus_sample s) * 10) 16"
      by (simp add: b scale_temp)
    moreover from this have
      "sint (bus_sample s) = - 160 \<longrightarrow>
          sint (word_of_int ((sint (RDxBuffer s') * 10) sdiv 16) :: 16 word) = - 100"
      by (simp add: trunc_toward_zero_def)
    ultimately show ?thesis using r b by blast
  qed
  from accel [of OUT_X_L_XL] have x: "\<exists>v s'. LSM9DS1_XA s = Some (v, s')
           \<and> sent (drop (length (trace s)) (trace s')) = [OUT_X_L_XL OR 0x80, 0, 0]
           \<and> received (drop (length (trace s)) (trace s')) = [rx s 0, rx s 1, rx s 2]
           \<and> RDxBuffer s' = bus_sample s
           \<and> sint v = trunc_toward_zero (sint (bus_sample s) * 61) 1000
           \<and> (sint (bus_sample s) = 1000 \<longrightarrow> sint v = 61)
           \<and> (sint (bus_sample s) = - 1000 \<longrightarrow> sint v = - 61)"
    unfolding LSM9DS1_XA_def by (auto simp: Let_def)
  from accel [of OUT_Y_L_XL] have y: "\<exists>v s'. LSM9DS1_YA s = Some (v, s')
           \<and> sent (drop (length (trace s)) (trace s')) = [OUT_Y_L_XL OR 0x80, 0, 0]
           \<and> received (drop (length (trace s)) (trace s')) = [rx s 0, rx s 1, rx s 2]
           \<and> RDxBuffer s' = bus_sample s
           \<and> sint v = trunc_toward_zero (sint (bus_sample s) * 61) 1000
           \<and> (sint (bus_sample s) = 1000 \<longrightarrow> sint v = 61)
           \<and> (sint (bus_sample s) = - 1000 \<longrightarrow> sint v = - 61)"
    unfolding LSM9DS1_YA_def by (auto simp: Let_def)
  from accel [of OUT_Z_L_XL] have z: "\<exists>v s'. LSM9DS1_ZA s = Some (v, s')
           \<and> sent (drop (length (trace s)) (trace s')) = [OUT_Z_L_XL OR 0x80, 0, 0]
           \<and> received (drop (length (trace s)) (trace s')) = [rx s 0, rx s 1, rx s 2]
           \<and> RDxBuffer s' = bus_sample s
           \<and> sint v = trunc_toward_zero (sint (bus_sample s) * 61) 1000
           \<and> (sint (bus_sample s) = 1000 \<longrightarrow> sint v = 61)
           \<and> (sint (bus_sample s) = - 1000 \<longrightarrow> sint v = - 61)"
    unfolding LSM9DS1_ZA_def by (auto simp: Let_def)
  from temp [of OUT_TEMP_L] have t: "\<exists>v s'. LSM9DS1_TMP s = Some (v, s')
           \<and> sent (drop (length (trace s)) (trace s')) = [OUT_TEMP_L OR 0x80, 0, 0]
           \<and> received (drop (length (trace s)) (trace s')) = [rx s 0, rx s 1, rx s 2]
           \<and> RDxBuffer s' = bus_sample s
           \<and> sint v = trunc_toward_zero (sint (bus_sample s) * 10) 16
           \<and> (sint (bus_sample s) = - 160 \<longrightarrow> sint v = - 100)"
    unfolding LSM9DS1_TMP_def by (auto simp: Let_def)
  from x y z t unat_bus_sample [of s] show ?thesis by blast
qed

theorem scaling_truncates_toward_zero_witness:
  "responsive (sim [0, 0x18, 0xFC]) \<and> responsive (sim [0, 0xFF, 0xFF])
   \<and> responsive (sim [0, 0x60, 0xFF]) \<and> responsive (sim [0, 0xE8, 0x03])
   \<and> (\<exists>v s'. LSM9DS1_XA (sim [0, 0x18, 0xFC]) = Some (v, s')
        \<and> sint (bus_sample (sim [0, 0x18, 0xFC])) = - 1000 \<and> sint v = - 61)
   \<and> (\<exists>v s'. LSM9DS1_YA (sim [0, 0xE8, 0x03]) = Some (v, s')
        \<and> sint (bus_sample (sim [0, 0xE8, 0x03])) = 1000 \<and> sint v = 61)
   \<and> (\<exists>v s'. LSM9DS1_ZA (sim [0, 0xFF, 0xFF]) = Some (v, s')
        \<and> sint (bus_sample (sim [0, 0xFF, 0xFF])) = - 1 \<and> sint v = 0)
   \<and> (\<exists>v s'. LSM9DS1_TMP (sim [0, 0x60, 0xFF]) = Some (v, s')
        \<and> sint (bus_sample (sim [0, 0x60, 0xFF])) = - 160 \<and> sint v = - 100)"
proof -
  let ?a = "sim [0, 0x18, 0xFC]" and ?b = "sim [0, 0xFF, 0xFF]" and ?c = "sim [0, 0x60, 0xFF]"
    and ?d = "sim [0, 0xE8, 0x03]"
  have raw: "sint (bus_sample ?a) = - 1000" "sint (bus_sample ?b) = - 1"
    "sint (bus_sample ?c) = - 160" "sint (bus_sample ?d) = 1000"
    by (simp_all add: bus_sample_def rx_sim)
  have x: "\<exists>v s'. LSM9DS1_XA ?a = Some (v, s')
        \<and> sint (bus_sample ?a) = - 1000 \<and> sint v = - 61"
  proof -
    from scaling_truncates_toward_zero [where s = ?a, OF responsive_sim, THEN conjunct1]
    obtain v s' where "LSM9DS1_XA ?a = Some (v, s')"
      "sint (bus_sample ?a) = - 1000 \<longrightarrow> sint v = - 61"
      by blast
    with raw(1) show ?thesis by blast
  qed
  have y: "\<exists>v s'. LSM9DS1_YA ?d = Some (v, s')
        \<and> sint (bus_sample ?d) = 1000 \<and> sint v = 61"
  proof -
    from scaling_truncates_toward_zero [where s = ?d, OF responsive_sim,
        THEN conjunct2, THEN conjunct1]
    obtain v s' where "LSM9DS1_YA ?d = Some (v, s')"
      "sint (bus_sample ?d) = 1000 \<longrightarrow> sint v = 61"
      by blast
    with raw(4) show ?thesis by blast
  qed
  have z: "\<exists>v s'. LSM9DS1_ZA ?b = Some (v, s')
        \<and> sint (bus_sample ?b) = - 1 \<and> sint v = 0"
  proof -
    from scaling_truncates_toward_zero [where s = ?b, OF responsive_sim,
        THEN conjunct2, THEN conjunct2, THEN conjunct1]
    obtain v s' where za: "LSM9DS1_ZA ?b = Some (v, s')" and
      q: "sint v = trunc_toward_zero (sint (bus_sample ?b) * 61) 1000"
      by blast
    from q have "sint v = 0" unfolding raw(2) by (simp add: trunc_toward_zero_def)
    with za raw(2) show ?thesis by blast
  qed
  have t: "\<exists>v s'. LSM9DS1_TMP ?c = Some (v, s')
        \<and> sint (bus_sample ?c) = - 160 \<and> sint v = - 100"
  proof -
    from scaling_truncates_toward_zero [where s = ?c, OF responsive_sim,
        THEN conjunct2, THEN conjunct2, THEN conjunct2, THEN conjunct1]
    obtain v s' where "LSM9DS1_TMP ?c = Some (v, s')"
      "sint (bus_sample ?c) = - 160 \<longrightarrow> sint v = - 100"
      by blast
    with raw(3) show ?thesis by blast
  qed
  from x y z t show ?thesis by (simp add: responsive_sim)
qed

text \<open>
  C3 fails on the code where the scaled value does not fit the \<^verbatim>\<open>int16_t\<close> the accessor
  computes in and returns. With the bus delivering the raw sample 4000 (bytes 0xA0,
  0x0F), \<open>4000 * 875 / 100 = 35000\<close>, and each gyroscope accessor returns the 16 bits
  0x88B8, which read as signed are -30536.
\<close>

theorem gyro_scaling_overflows_int16:
  "map_option fst (LSM9DS1_XG (sim [0, 0xA0, 0x0F])) = Some 0x88B8
   \<and> map_option fst (LSM9DS1_YG (sim [0, 0xA0, 0x0F])) = Some 0x88B8
   \<and> map_option fst (LSM9DS1_ZG (sim [0, 0xA0, 0x0F])) = Some 0x88B8
   \<and> map_option (RDxBuffer \<circ> snd) (LSM9DS1_XG (sim [0, 0xA0, 0x0F])) = Some 0x0FA0
   \<and> sint (0x0FA0 :: 16 word) = 4000
   \<and> trunc_toward_zero (4000 * 875) 100 = 35000
   \<and> sint (0x88B8 :: 16 word) = - 30536"
proof -
  have raw: "\<exists>s'. read_SPI AG a 2 (sim [0, 0xA0, 0x0F]) = Some s' \<and> RDxBuffer s' = 0x0FA0" for a
    using read_SPI_AG_raw [where s = "sim [0, 0xA0, 0x0F]" and a = a, OF responsive_sim]
    by (simp add: rx_def sim_def)
  have conv: "(word_of_int ((sint (0x0FA0 :: 16 word) * 875) sdiv 100) :: 16 word) = 0x88B8"
    by (simp add: signed_divide_int_def)
  from raw [of OUT_X_L_G] have "map_option fst (LSM9DS1_XG (sim [0, 0xA0, 0x0F])) = Some 0x88B8"
    "map_option (RDxBuffer \<circ> snd) (LSM9DS1_XG (sim [0, 0xA0, 0x0F])) = Some 0x0FA0"
    by (auto simp: LSM9DS1_XG_def Let_def conv)
  moreover from raw [of OUT_Y_L_G]
  have "map_option fst (LSM9DS1_YG (sim [0, 0xA0, 0x0F])) = Some 0x88B8"
    by (auto simp: LSM9DS1_YG_def Let_def conv)
  moreover from raw [of OUT_Z_L_G]
  have "map_option fst (LSM9DS1_ZG (sim [0, 0xA0, 0x0F])) = Some 0x88B8"
    by (auto simp: LSM9DS1_ZG_def Let_def conv)
  moreover have "sint (0x0FA0 :: 16 word) = 4000" "sint (0x88B8 :: 16 word) = - 30536"
    "trunc_toward_zero (4000 * 875) 100 = 35000"
    by (simp_all add: trunc_toward_zero_def)
  ultimately show ?thesis by simp
qed

text \<open>
  Within \<open>-3745 .. 3744\<close> the scaled gyroscope value fits and the accessors return the
  truncated quotient.
\<close>

lemma gyro_scaling_exact_in_range:
  assumes "responsive s"
    and "- 3745 \<le> sint (bus_sample s)" and "sint (bus_sample s) \<le> 3744"
  shows "\<exists>v s'. LSM9DS1_XG s = Some (v, s')
    \<and> sint v = trunc_toward_zero (sint (bus_sample s) * 875) 100"
proof -
  from read_SPI_AG_sample [OF assms(1), of OUT_X_L_G] obtain s' where
    r: "read_SPI AG OUT_X_L_G 2 s = Some s'" and b: "RDxBuffer s' = bus_sample s"
    by blast
  from assms(2,3) have "sint (word_of_int ((sint (bus_sample s) * 875) sdiv 100) :: 16 word)
      = trunc_toward_zero (sint (bus_sample s) * 875) 100"
    by (rule scale_gyro_in_range)
  with r b show ?thesis by (simp add: LSM9DS1_XG_def Let_def)
qed

section \<open>Initialisation\<close>

lemma LSM9DS1_Init_trace:
  assumes "responsive s"
  shows "\<exists>s'. LSM9DS1_Init s = Some s'
    \<and> P6OUT s' = P6OUT s OR (BIT0 OR BIT1 OR BIT2)
    \<and> trace s' = trace s @
       [Port (P6OUT s OR (BIT0 OR BIT1 OR BIT2)),
        Port ((P6OUT s OR (BIT0 OR BIT1 OR BIT2)) AND (NOT BIT0 AND NOT BIT2)),
        Xfer 0x10 (rx s 0), Xfer 0x20 (rx s 1),
        Port (P6OUT s OR (BIT0 OR BIT1 OR BIT2)),
        Port ((P6OUT s OR (BIT0 OR BIT1 OR BIT2)) AND (NOT BIT0 AND NOT BIT2)),
        Xfer 0x20 (rx s 2), Xfer 0x40 (rx s 3),
        Port (P6OUT s OR (BIT0 OR BIT1 OR BIT2)),
        Port ((P6OUT s OR (BIT0 OR BIT1 OR BIT2)) AND (NOT BIT0 AND NOT BIT2)),
        Xfer 0x1F (rx s 4), Xfer 0x38 (rx s 5),
        Port (P6OUT s OR (BIT0 OR BIT1 OR BIT2)),
        Port ((P6OUT s OR (BIT0 OR BIT1 OR BIT2)) AND (NOT BIT1 AND NOT BIT2)),
        Xfer 0x22 (rx s 6), Xfer 0x00 (rx s 7),
        Port (P6OUT s OR (BIT0 OR BIT1 OR BIT2)),
        Port ((P6OUT s OR (BIT0 OR BIT1 OR BIT2)) AND (NOT BIT1 AND NOT BIT2)),
        Xfer 0x20 (rx s 8), Xfer 0x74 (rx s 9),
        Port (P6OUT s OR (BIT0 OR BIT1 OR BIT2)),
        Port ((P6OUT s OR (BIT0 OR BIT1 OR BIT2)) AND (NOT BIT1 AND NOT BIT2)),
        Xfer 0x23 (rx s 10), Xfer 0x0C (rx s 11),
        Port (P6OUT s OR (BIT0 OR BIT1 OR BIT2))]"
proof -
  let ?idle = "P6OUT s OR (BIT0 OR BIT1 OR BIT2)"
  define s0 where "s0 =
    (let s = s\<lparr>P6SEL0 := P6SEL0 s OR (BIT2 OR BIT3 OR BIT4 OR BIT5)\<rparr>;
         s = s\<lparr>P6DIR := P6DIR s OR (BIT0 OR BIT1 OR BIT2)\<rparr>;
         s = set_P6OUT (P6OUT s OR (BIT0 OR BIT1 OR BIT2)) s;
         s = s\<lparr>CTLW0 := CTLW0 s OR EUSCI_B_CTLW0_SWRST\<rparr>;
         s = s\<lparr>CTLW0 := EUSCI_B_CTLW0_SWRST OR EUSCI_B_CTLW0_MST OR EUSCI_B_CTLW0_SYNC
                  OR EUSCI_B_CTLW0_MSB OR EUSCI_B_CTLW0_MODE_1 OR EUSCI_B_CTLW0_STEM
                  OR EUSCI_B_CTLW0_CKPH OR EUSCI_B_CTLW0_SSEL__ACLK\<rparr>;
         s = s\<lparr>BRW := 1\<rparr>
     in s\<lparr>CTLW0 := CTLW0 s AND NOT EUSCI_B_CTLW0_SWRST\<rparr>)"
  have init: "LSM9DS1_Init s = do {
     s \<leftarrow> write_SPI AG CTRL_REG1_G 0x20 s0;
     s \<leftarrow> write_SPI AG CTRL_REG6_XL 0x40 s;
     s \<leftarrow> write_SPI AG CTRL_REG5_XL 0x38 s;
     s \<leftarrow> write_SPI M CTRL_REG3_M 0x00 s;
     s \<leftarrow> write_SPI M CTRL_REG1_M 0x74 s;
     write_SPI M CTRL_REG4_M 0x0C s
   }"
    by (simp add: LSM9DS1_Init_def s0_def Let_def)
  have s0: "responsive s0" "P6OUT s0 = ?idle" "trace s0 = trace s @ [Port ?idle]"
    "RXBUF s0 = RXBUF s" "xfers s0 = xfers s" "STATW s0 = STATW s"
    using assms by (simp_all add: s0_def Let_def set_P6OUT_def responsive_def)
  have resp: "responsive t" if "STATW t = STATW s" for t
    using assms that by (simp add: responsive_def)
  have rx0: "rx s0 i = rx s i" for i
    by (simp add: rx_def s0)
  have rxs: "rx t i = rx s (k + i)" if "RXBUF t = RXBUF s" "xfers t = xfers s + k" for t i k
    using that by (simp add: rx_def add.assoc)
  from write_SPI_AG [OF s0(1), of CTRL_REG1_G "0x20"] obtain s1 where s1:
    "write_SPI AG CTRL_REG1_G 0x20 s0 = Some s1"
    "trace s1 = trace s @ [Port ?idle, Port (?idle AND (NOT BIT0 AND NOT BIT2)),
        Xfer 0x10 (rx s 0), Xfer 0x20 (rx s 1), Port ?idle]"
    "P6OUT s1 = ?idle" "STATW s1 = STATW s" "RXBUF s1 = RXBUF s" "xfers s1 = xfers s + 2"
    by (auto simp: s0 idle_absorb CTRL_REG1_G_def rx0)
  from write_SPI_AG [OF resp [OF s1(4)], of CTRL_REG6_XL "0x40"] obtain s2 where s2:
    "write_SPI AG CTRL_REG6_XL 0x40 s1 = Some s2"
    "trace s2 = trace s1 @ [Port (?idle AND (NOT BIT0 AND NOT BIT2)),
        Xfer 0x20 (rx s 2), Xfer 0x40 (rx s 3), Port ?idle]"
    "P6OUT s2 = ?idle" "STATW s2 = STATW s" "RXBUF s2 = RXBUF s" "xfers s2 = xfers s + 4"
    by (auto simp: s1 idle_absorb CTRL_REG6_XL_def rxs [OF s1(5,6)])
  from write_SPI_AG [OF resp [OF s2(4)], of CTRL_REG5_XL "0x38"] obtain s3 where s3:
    "write_SPI AG CTRL_REG5_XL 0x38 s2 = Some s3"
    "trace s3 = trace s2 @ [Port (?idle AND (NOT BIT0 AND NOT BIT2)),
        Xfer 0x1F (rx s 4), Xfer 0x38 (rx s 5), Port ?idle]"
    "P6OUT s3 = ?idle" "STATW s3 = STATW s" "RXBUF s3 = RXBUF s" "xfers s3 = xfers s + 6"
    by (auto simp: s2 idle_absorb CTRL_REG5_XL_def rxs [OF s2(5,6)])
  from write_SPI_M [OF resp [OF s3(4)], of CTRL_REG3_M "0x00"] obtain s4 where s4:
    "write_SPI M CTRL_REG3_M 0x00 s3 = Some s4"
    "trace s4 = trace s3 @ [Port (?idle AND (NOT BIT1 AND NOT BIT2)),
        Xfer 0x22 (rx s 6), Xfer 0x00 (rx s 7), Port ?idle]"
    "P6OUT s4 = ?idle" "STATW s4 = STATW s" "RXBUF s4 = RXBUF s" "xfers s4 = xfers s + 8"
    by (auto simp: s3 idle_absorb CTRL_REG3_M_def rxs [OF s3(5,6)])
  from write_SPI_M [OF resp [OF s4(4)], of CTRL_REG1_M "0x74"] obtain s5 where s5:
    "write_SPI M CTRL_REG1_M 0x74 s4 = Some s5"
    "trace s5 = trace s4 @ [Port (?idle AND (NOT BIT1 AND NOT BIT2)),
        Xfer 0x20 (rx s 8), Xfer 0x74 (rx s 9), Port ?idle]"
    "P6OUT s5 = ?idle" "STATW s5 = STATW s" "RXBUF s5 = RXBUF s" "xfers s5 = xfers s + 10"
    by (auto simp: s4 idle_absorb CTRL_REG1_M_def rxs [OF s4(5,6)])
  from write_SPI_M [OF resp [OF s5(4)], of CTRL_REG4_M "0x0C"] obtain s6 where s6:
    "write_SPI M CTRL_REG4_M 0x0C s5 = Some s6"
    "trace s6 = trace s5 @ [Port (?idle AND (NOT BIT1 AND NOT BIT2)),
        Xfer 0x23 (rx s 10), Xfer 0x0C (rx s 11), Port ?idle]"
    "P6OUT s6 = ?idle"
    by (auto simp: s5 idle_absorb CTRL_REG4_M_def rxs [OF s5(5,6)])
  have "LSM9DS1_Init s = Some s6"
    by (simp only: init s1(1) s2(1) s3(1) s4(1) s5(1) s6(1) bind.bind_lunit)
  then show ?thesis
    by (simp add: s6 s5 s4 s3 s2 s1)
qed

lemma LSM9DS1_Init_bursts:
  assumes "responsive s"
  shows "\<exists>s'. LSM9DS1_Init s = Some s'
    \<and> bursts (P6OUT s) [] (drop (length (trace s)) (trace s')) =
       [((P6OUT s OR (BIT0 OR BIT1 OR BIT2)) AND (NOT BIT0 AND NOT BIT2), [0x10, 0x20]),
        ((P6OUT s OR (BIT0 OR BIT1 OR BIT2)) AND (NOT BIT0 AND NOT BIT2), [0x20, 0x40]),
        ((P6OUT s OR (BIT0 OR BIT1 OR BIT2)) AND (NOT BIT0 AND NOT BIT2), [0x1F, 0x38]),
        ((P6OUT s OR (BIT0 OR BIT1 OR BIT2)) AND (NOT BIT1 AND NOT BIT2), [0x22, 0x00]),
        ((P6OUT s OR (BIT0 OR BIT1 OR BIT2)) AND (NOT BIT1 AND NOT BIT2), [0x20, 0x74]),
        ((P6OUT s OR (BIT0 OR BIT1 OR BIT2)) AND (NOT BIT1 AND NOT BIT2), [0x23, 0x0C])]"
  using LSM9DS1_Init_trace [OF assms] by auto

lemma LSM9DS1_Init_deasserts_both:
  assumes "responsive s"
  shows "\<exists>s'. LSM9DS1_Init s = Some s'
    \<and> \<not> CSAG_asserted (P6OUT s') \<and> \<not> CSM_asserted (P6OUT s')"
  using LSM9DS1_Init_trace [OF assms] by (auto simp: idle_bits)

lemma select_from_idle:
  "CSAG_asserted ((p OR (BIT0 OR BIT1 OR BIT2)) AND (NOT BIT0 AND NOT BIT2))"
  "\<not> CSM_asserted ((p OR (BIT0 OR BIT1 OR BIT2)) AND (NOT BIT0 AND NOT BIT2))"
  "CSM_asserted ((p OR (BIT0 OR BIT1 OR BIT2)) AND (NOT BIT1 AND NOT BIT2))"
  "\<not> CSAG_asserted ((p OR (BIT0 OR BIT1 OR BIT2)) AND (NOT BIT1 AND NOT BIT2))"
  by (simp_all add: select_AG_bits select_M_bits idle_bits)



section \<open>The address-increment flag\<close>

text \<open>
  C8, as amended. The increment flag is sent with every read on M and is not set up at
  initialisation. The address byte of a read on AG is \<open>A OR 0x80\<close>: its bit 6 is that of
  the address, no flag is added. The address byte of every read on M is \<open>A OR 0xC0\<close>:
  bit 6, which the first revision of the driver documents as the magnetometer's
  ``increment address'' bit next to the read/write bit, is set in each transaction.
  \<^verbatim>\<open>LSM9DS1_Init\<close> writes three registers on AG, 0x10, 0x20 and 0x1F; CTRL\_REG8
  (0x22), which the driver's register list documents as the address auto-increment
  control, is not among them.
\<close>

theorem increment_flag_sent_with_each_M_read:
  assumes "responsive s"
  shows "(\<exists>s'. read_SPI AG a n s = Some s'
           \<and> sent (drop (length (trace s)) (trace s'))
               = (a OR 0x80) # (if n = 2 then [0, 0] else [0])
           \<and> bit (a OR 0x80) 6 = bit a 6)
       \<and> (\<exists>s'. read_SPI M a n s = Some s'
           \<and> sent (drop (length (trace s)) (trace s'))
               = (a OR 0xC0) # (if n = 2 then [0, 0] else [0])
           \<and> bit (a OR 0xC0) 6)
       \<and> (\<exists>s'. LSM9DS1_Init s = Some s'
           \<and> map snd (filter (CSAG_asserted \<circ> fst)
                 (bursts (P6OUT s) [] (drop (length (trace s)) (trace s'))))
               = [[0x10, 0x20], [0x20, 0x40], [0x1F, 0x38]])
       \<and> CTRL_REG8 \<notin> {0x10, 0x20, 0x1F}"
proof -
  from read_SPI_sent [OF assms, of AG a n] have ag:
    "\<exists>s'. read_SPI AG a n s = Some s'
       \<and> sent (drop (length (trace s)) (trace s'))
           = (a OR 0x80) # (if n = 2 then [0, 0] else [0])
       \<and> bit (a OR 0x80) 6 = bit a 6"
    by (auto simp: read_flag_bits)
  from read_SPI_sent [OF assms, of M a n] have m:
    "\<exists>s'. read_SPI M a n s = Some s'
       \<and> sent (drop (length (trace s)) (trace s'))
           = (a OR 0xC0) # (if n = 2 then [0, 0] else [0])
       \<and> bit (a OR 0xC0) 6"
    by (auto simp: read_flag_bits)
  from LSM9DS1_Init_bursts [OF assms] have init:
    "\<exists>s'. LSM9DS1_Init s = Some s'
       \<and> map snd (filter (CSAG_asserted \<circ> fst)
             (bursts (P6OUT s) [] (drop (length (trace s)) (trace s'))))
           = [[0x10, 0x20], [0x20, 0x40], [0x1F, 0x38]]"
    by (auto simp: select_from_idle)
  have "CTRL_REG8 \<notin> {0x10, 0x20, 0x1F}"
    by (simp add: CTRL_REG8_def)
  with ag m init show ?thesis by blast
qed

theorem increment_flag_sent_with_each_M_read_witness:
  "responsive (sim [])
   \<and> (\<exists>s'. read_SPI M OUT_Z_L_M 2 (sim []) = Some s'
        \<and> sent (trace s') = [0xEC, 0, 0] \<and> bit (0xEC :: 8 word) 6)"
  using increment_flag_sent_with_each_M_read [where s = "sim []" and a = OUT_Z_L_M and n = 2,
      OF responsive_sim, THEN conjunct2, THEN conjunct1]
  by (simp add: responsive_sim OUT_Z_L_M_def) (simp add: sim_def)

text \<open>
  C8 as stated fails: the address byte of a two-byte read of OUT\_X\_L\_M (0x28) on M is
  0xE8, with bit 6 set though the address has it clear; and the bytes \<^verbatim>\<open>LSM9DS1_Init\<close>
  sends hold no write to CTRL\_REG8.
\<close>

theorem read_SPI_M_increment_flag_counterexample:
  "map_option trace (read_SPI M OUT_X_L_M 2 (sim []))
     = Some [Port 0x01, Xfer 0xE8 0, Xfer 0 0, Xfer 0 0, Port 0x07]
   \<and> bit (0xE8 :: 8 word) 6 \<and> \<not> bit OUT_X_L_M 6
   \<and> map_option (bursts 0x07 [] \<circ> trace) (LSM9DS1_Init (sim []))
     = Some [(0x02, [0x10, 0x20]), (0x02, [0x20, 0x40]), (0x02, [0x1F, 0x38]),
             (0x01, [0x22, 0x00]), (0x01, [0x20, 0x74]), (0x01, [0x23, 0x0C])]"
proof -
  from read_SPI_M [where s = "sim []" and a = OUT_X_L_M and n = 2, OF responsive_sim]
  have "map_option trace (read_SPI M OUT_X_L_M 2 (sim []))
     = Some [Port 0x01, Xfer 0xE8 0, Xfer 0 0, Xfer 0 0, Port 0x07]"
    by (auto simp: sim_def rx_def OUT_X_L_M_def BIT1_def BIT2_def)
  moreover have "bit (0xE8 :: 8 word) 6 \<and> \<not> bit OUT_X_L_M 6"
    by (simp add: OUT_X_L_M_def)
  moreover from LSM9DS1_Init_bursts [where s = "sim []", OF responsive_sim]
  have "map_option (bursts 0x07 [] \<circ> trace) (LSM9DS1_Init (sim []))
     = Some [(0x02, [0x10, 0x20]), (0x02, [0x20, 0x40]), (0x02, [0x1F, 0x38]),
             (0x01, [0x22, 0x00]), (0x01, [0x20, 0x74]), (0x01, [0x23, 0x0C])]"
    by (auto simp: sim_def BIT0_def BIT1_def BIT2_def)
  ultimately show ?thesis by simp
qed

end
